theory Spec2Isabelle
  imports Complex_Main
begin

section \<open>Data model (src/types/trading.ts)\<close>

text \<open>
  JavaScript numbers are modelled as reals: the finite, non-NaN values, with exact
  arithmetic. An optional field is an \<open>option\<close>. The only infinite number the
  engine itself produces is the balance sentinel of \<open>closePosition\<close>, so the
  balance gets a type of its own. A quotient by zero is infinite or NaN in JavaScript and
  lies outside the model: on the engine's paths the divisors are a validated positive
  quantity added to a magnitude, and a leverage that defaults to 1 when it is zero.
\<close>

datatype side = Buy | Sell

datatype order_type = Market | Limit

datatype order_status = Pending | Filled | Cancelled | Partial | Rejected

datatype time_in_force = GTC | IOC | FOK

datatype position_side = Long | Short | PBuy | PSell

datatype Balance = Finite real | Infinity

record Order =
  order_id :: string
  order_symbol :: string
  order_side :: side
  order_type :: order_type
  order_quantity :: real
  order_price :: "real option"
  order_status :: order_status
  order_timestamp :: nat
  order_leverage :: "real option"
  order_stopLoss :: "real option"
  order_takeProfit :: "real option"
  order_timeInForce :: "time_in_force option"
  order_filledQuantity :: "real option"
  order_averagePrice :: "real option"
  order_filledAt :: "nat option"
  order_cancelledAt :: "nat option"
  order_rejectedReason :: "string option"

text \<open>
  \<open>Partial<Order>\<close> as the engine receives it: every field optional. Only the
  fields that \<open>validateOrder\<close> and \<open>executeOrder\<close> read are kept.
\<close>

record OrderData =
  od_symbol :: "string option"
  od_side :: "side option"
  od_type :: "order_type option"
  od_quantity :: "real option"
  od_price :: "real option"
  od_leverage :: "real option"
  od_stopLoss :: "real option"
  od_takeProfit :: "real option"
  od_timeInForce :: "time_in_force option"

record Position =
  pos_id :: string
  pos_symbol :: string
  pos_side :: position_side
  pos_size :: real
  pos_entryPrice :: real
  pos_markPrice :: real
  pos_pnl :: real
  pos_pnlPercent :: real
  pos_unrealizedPnl :: real
  pos_realizedPnl :: real
  pos_margin :: real
  pos_leverage :: real
  pos_liquidationPrice :: "real option"
  pos_timestamp :: nat
  pos_stopLoss :: "real option"
  pos_takeProfit :: "real option"

record Trade =
  trade_id :: string
  trade_orderId :: "string option"
  trade_symbol :: string
  trade_side :: side
  trade_quantity :: real
  trade_price :: real
  trade_timestamp :: nat
  trade_fee :: real
  trade_leverage :: "real option"

section \<open>Results and engine state (src/lib/trading-engine.ts)\<close>

record OrderValidationResult =
  isValid :: bool
  errors :: "string list"
  warnings :: "string list"

record OrderExecutionResult =
  success :: bool
  orderId :: "string option"
  executedPrice :: "real option"
  executedQuantity :: "real option"
  error :: "string option"
  trade :: "Trade option"

text \<open>
  The two tables are JavaScript \<open>Map\<close>s, which keep insertion order
  (\<open>closePosition\<close> searches the positions in that order): association lists
  with at most one entry per key.
\<close>

record Engine =
  orders :: "(string \<times> Order) list"
  positions :: "(string \<times> Position) list"
  trades :: "Trade list"
  orderCounter :: nat

definition initialEngine :: Engine where
  "initialEngine = \<lparr>orders = [], positions = [], trades = [], orderCounter = 0\<rparr>"

text \<open>\<open>Map.prototype.set\<close>: an existing key keeps its place, a new key goes last.\<close>

fun mapSet :: "('k \<times> 'v) list \<Rightarrow> 'k \<Rightarrow> 'v \<Rightarrow> ('k \<times> 'v) list" where
  "mapSet [] k v = [(k, v)]"
| "mapSet ((k', v') # m) k v = (if k' = k then (k, v) # m else (k', v') # mapSet m k v)"

text \<open>\<open>Map.prototype.get\<close>.\<close>

definition mapGet :: "('k \<times> 'v) list \<Rightarrow> 'k \<Rightarrow> 'v option" where
  "mapGet m k = map_of m k"

text \<open>
  How a number is rendered in a string (template literals and \<open>toFixed\<close>) is a
  parameter of the model: the reals have no shortest round-trip decimal.
\<close>

record Formatter =
  numberToString :: "real \<Rightarrow> string"
  toFixed :: "real \<Rightarrow> nat \<Rightarrow> string"

text \<open>
  The values one call reads from the clock and the random generator, in the order the
  code reads them. \<open>slippageRandom\<close> is the \<open>Math.random()\<close> of
  \<open>executeMarketOrder\<close>, in \<open>[0, 1)\<close>; \<open>tradeIdRandom\<close> is the base-36
  suffix of the trade id.
\<close>

record ExecEnv =
  orderIdNow :: nat
  orderNow :: nat
  slippageRandom :: real
  tradeIdNow :: nat
  tradeIdRandom :: string
  tradeNow :: nat
  positionIdNow :: nat
  filledNow :: nat

subsection \<open>Truthiness and defaults\<close>

definition truthyNum :: "real option \<Rightarrow> bool" where
  "truthyNum x = (case x of None \<Rightarrow> False | Some v \<Rightarrow> v \<noteq> 0)"

definition truthyStr :: "string option \<Rightarrow> bool" where
  "truthyStr x = (case x of None \<Rightarrow> False | Some s \<Rightarrow> s \<noteq> [])"

text \<open>\<open>x || d\<close> on an optional number.\<close>

definition orElse :: "real option \<Rightarrow> real \<Rightarrow> real" where
  "orElse x d = (case x of None \<Rightarrow> d | Some v \<Rightarrow> if v \<noteq> 0 then v else d)"

text \<open>\<open>Array.prototype.join\<close>.\<close>

fun joinWith :: "string \<Rightarrow> string list \<Rightarrow> string" where
  "joinWith sep [] = []"
| "joinWith sep [x] = x"
| "joinWith sep (x # y # ys) = x @ sep @ joinWith sep (y # ys)"

definition balanceToFixed :: "Formatter \<Rightarrow> Balance \<Rightarrow> nat \<Rightarrow> string" where
  "balanceToFixed fmt b d = (case b of Finite r \<Rightarrow> toFixed fmt r d | Infinity \<Rightarrow> ''Infinity'')"

text \<open>\<open>x > userBalance\<close> for a finite \<open>x\<close>.\<close>

definition exceedsBalance :: "real \<Rightarrow> Balance \<Rightarrow> bool" where
  "exceedsBalance x b = (case b of Finite r \<Rightarrow> x > r | Infinity \<Rightarrow> False)"

text \<open>\<open>x > userBalance * 0.5\<close> for a finite \<open>x\<close>.\<close>

definition exceedsHalfBalance :: "real \<Rightarrow> Balance \<Rightarrow> bool" where
  "exceedsHalfBalance x b = (case b of Finite r \<Rightarrow> x > r * 0.5 | Infinity \<Rightarrow> False)"

subsection \<open>validateOrder\<close>

definition insufficientBalanceError :: "Formatter \<Rightarrow> real \<Rightarrow> Balance \<Rightarrow> string" where
  "insufficientBalanceError fmt requiredBalance userBalance =
     ''Insufficient balance. Required: $'' @ toFixed fmt requiredBalance 2 @
     '', Available: $'' @ balanceToFixed fmt userBalance 2"

definition validateOrder :: "Formatter \<Rightarrow> OrderData \<Rightarrow> Balance \<Rightarrow> real \<Rightarrow> OrderValidationResult" where
  "validateOrder fmt order userBalance currentPrice =
    (let errs =
           (if \<not> truthyStr (od_symbol order) then [''Symbol is required''] else []) @
           (if od_side order = None then [''Order side is required''] else []) @
           (if \<not> truthyNum (od_quantity order) \<or> the (od_quantity order) \<le> 0
            then [''Quantity must be greater than 0''] else []) @
           (if od_type order = None then [''Order type is required''] else []) @
           (if od_type order = Some Limit \<and>
               (\<not> truthyNum (od_price order) \<or> the (od_price order) \<le> 0)
            then [''Price is required for limit orders''] else []) @
           (if od_side order = Some Buy \<and> truthyNum (od_quantity order) \<and> truthyNum (od_price order)
            then (let requiredBalance = the (od_quantity order) * the (od_price order)
                  in if exceedsBalance requiredBalance userBalance
                     then [insufficientBalanceError fmt requiredBalance userBalance] else [])
            else []) @
           (if truthyNum (od_quantity order) \<and> truthyNum (od_price order) \<and>
               the (od_quantity order) * the (od_price order) < 10
            then [''Order size must be at least $10''] else []);
         warns =
           (if truthyNum (od_quantity order) \<and> truthyNum (od_price order) \<and>
               exceedsHalfBalance (the (od_quantity order) * the (od_price order)) userBalance
            then [''Large order size. Consider splitting into smaller orders.''] else []) @
           (if od_type order = Some Market \<and> currentPrice \<noteq> 0
            then [''Market orders execute at current market price and may have slippage''] else []) @
           (if od_type order = Some Limit \<and> truthyNum (od_price order) \<and> currentPrice \<noteq> 0
            then (let deviation = \<bar>the (od_price order) - currentPrice\<bar> / currentPrice
                  in if deviation > 0.05
                     then [''Limit price deviates significantly from current market price ('' @
                           toFixed fmt (deviation * 100) 1 @ ''%)'']
                     else [])
            else [])
     in \<lparr>isValid = (length errs = 0), errors = errs, warnings = warns\<rparr>)"

subsection \<open>Identifiers and fees\<close>

text \<open>\<open>generateOrderId\<close>: the clock reading, then the incremented counter.\<close>

definition generateOrderId :: "Formatter \<Rightarrow> nat \<Rightarrow> Engine \<Rightarrow> string \<times> Engine" where
  "generateOrderId fmt now eng =
     (''order-'' @ numberToString fmt (real now) @ ''-'' @
        numberToString fmt (real (orderCounter eng + 1)),
      eng\<lparr>orderCounter := orderCounter eng + 1\<rparr>)"

definition generateTradeId :: "Formatter \<Rightarrow> nat \<Rightarrow> string \<Rightarrow> string" where
  "generateTradeId fmt now rnd = ''trade-'' @ numberToString fmt (real now) @ ''-'' @ rnd"

definition calculateFee :: "real \<Rightarrow> real \<Rightarrow> real" where
  "calculateFee quantity price = quantity * price * 0.001"

subsection \<open>updatePosition\<close>

text \<open>The template literal \<open>`${trade.symbol}-${trade.leverage}`\<close>.\<close>

definition positionKey :: "Formatter \<Rightarrow> Trade \<Rightarrow> string" where
  "positionKey fmt t =
     trade_symbol t @ ''-'' @
       (case trade_leverage t of None \<Rightarrow> ''undefined'' | Some l \<Rightarrow> numberToString fmt l)"

definition positionSide :: "side \<Rightarrow> position_side" where
  "positionSide s = (case s of Buy \<Rightarrow> PBuy | Sell \<Rightarrow> PSell)"

definition signedQuantity :: "Trade \<Rightarrow> real" where
  "signedQuantity t =
     (if trade_side t = Buy then trade_quantity t else - trade_quantity t)"

definition updatePosition :: "Formatter \<Rightarrow> nat \<Rightarrow> Trade \<Rightarrow> Engine \<Rightarrow> Engine" where
  "updatePosition fmt now t eng =
    (let key = positionKey fmt t in
     case mapGet (positions eng) key of
       None \<Rightarrow>
         eng\<lparr>positions := mapSet (positions eng) key
           \<lparr>pos_id = ''pos-'' @ numberToString fmt (real now),
            pos_symbol = trade_symbol t,
            pos_side = positionSide (trade_side t),
            pos_size = signedQuantity t,
            pos_entryPrice = trade_price t,
            pos_markPrice = trade_price t,
            pos_pnl = 0,
            pos_pnlPercent = 0,
            pos_unrealizedPnl = 0,
            pos_realizedPnl = 0,
            pos_margin = (trade_quantity t * trade_price t) / orElse (trade_leverage t) 1,
            pos_leverage = orElse (trade_leverage t) 1,
            pos_liquidationPrice = None,
            pos_timestamp = trade_timestamp t,
            pos_stopLoss = None,
            pos_takeProfit = None\<rparr>\<rparr>
     | Some position \<Rightarrow>
         (let currentSize = pos_size position;
              tradeSize = signedQuantity t;
              newSize = currentSize + tradeSize;
              position' =
                (if sgn currentSize = sgn tradeSize \<or> currentSize = 0 then
                   (let totalValue = \<bar>currentSize\<bar> * pos_entryPrice position +
                                     trade_quantity t * trade_price t;
                        totalQuantity = \<bar>currentSize\<bar> + trade_quantity t
                    in position\<lparr>pos_entryPrice := totalValue / totalQuantity,
                                 pos_size := newSize,
                                 pos_margin := pos_margin position +
                                   (trade_quantity t * trade_price t) /
                                     orElse (trade_leverage t) 1\<rparr>)
                 else
                   (let closingQuantity = min \<bar>currentSize\<bar> (trade_quantity t);
                        pnlPerUnit = (if trade_side t = Buy
                                      then pos_entryPrice position - trade_price t
                                      else trade_price t - pos_entryPrice position);
                        reduced = position\<lparr>pos_realizedPnl := pos_realizedPnl position +
                                              pnlPerUnit * closingQuantity * pos_leverage position,
                                            pos_size := newSize\<rparr>
                    in if \<bar>newSize\<bar> < \<bar>currentSize\<bar>
                       then reduced\<lparr>pos_margin := (\<bar>newSize\<bar> * pos_entryPrice position) /
                                                      pos_leverage position\<rparr>
                       else reduced))
          in eng\<lparr>positions := mapSet (positions eng) key position'\<rparr>))"

subsection \<open>Execution\<close>

definition executeMarketOrder ::
  "Formatter \<Rightarrow> ExecEnv \<Rightarrow> Order \<Rightarrow> real \<Rightarrow> Engine \<Rightarrow> OrderExecutionResult \<times> Engine" where
  "executeMarketOrder fmt env order currentPrice eng =
    (let slippage = slippageRandom env * 0.001;
         slippageDirection = (if order_side order = Buy then 1 else - 1);
         executedPrice = currentPrice * (1 + slippage * slippageDirection);
         newTrade = \<lparr>trade_id = generateTradeId fmt (tradeIdNow env) (tradeIdRandom env),
                  trade_orderId = Some (order_id order),
                  trade_symbol = order_symbol order,
                  trade_side = order_side order,
                  trade_quantity = order_quantity order,
                  trade_price = executedPrice,
                  trade_timestamp = tradeNow env,
                  trade_fee = calculateFee (order_quantity order) executedPrice,
                  trade_leverage = order_leverage order\<rparr>;
         eng1 = eng\<lparr>trades := trades eng @ [newTrade]\<rparr>;
         eng2 = updatePosition fmt (positionIdNow env) newTrade eng1
     in (\<lparr>success = True, orderId = None, executedPrice = Some executedPrice,
          executedQuantity = Some (order_quantity order), error = None, trade = Some newTrade\<rparr>,
         eng2))"

definition executeLimitOrder ::
  "Formatter \<Rightarrow> ExecEnv \<Rightarrow> Order \<Rightarrow> real \<Rightarrow> Engine \<Rightarrow> OrderExecutionResult \<times> Engine" where
  "executeLimitOrder fmt env order currentPrice eng =
    (let shouldExecute =
           ((order_side order = Buy \<and> the (order_price order) \<ge> currentPrice) \<or>
            (order_side order = Sell \<and> the (order_price order) \<le> currentPrice))
     in if \<not> shouldExecute
        then (\<lparr>success = True, orderId = None, executedPrice = None,
               executedQuantity = Some 0, error = None, trade = None\<rparr>, eng)
        else
          (let newTrade = \<lparr>trade_id = generateTradeId fmt (tradeIdNow env) (tradeIdRandom env),
                        trade_orderId = Some (order_id order),
                        trade_symbol = order_symbol order,
                        trade_side = order_side order,
                        trade_quantity = order_quantity order,
                        trade_price = the (order_price order),
                        trade_timestamp = tradeNow env,
                        trade_fee = calculateFee (order_quantity order) (the (order_price order)),
                        trade_leverage = order_leverage order\<rparr>;
               eng1 = eng\<lparr>trades := trades eng @ [newTrade]\<rparr>;
               eng2 = updatePosition fmt (positionIdNow env) newTrade eng1
           in (\<lparr>success = True, orderId = None, executedPrice = order_price order,
                executedQuantity = Some (order_quantity order), error = None,
                trade = Some newTrade\<rparr>,
               eng2)))"

text \<open>
  \<open>executeOrder\<close>. The non-null assertions on symbol, side, type and quantity are
  \<open>the\<close>: validation has established that the four fields are present
  (\<open>validateOrder_valid_fields\<close> below). No step of the body throws on the
  modelled values, so the \<open>catch\<close> branch has no counterpart.
\<close>

definition executeOrder ::
  "Formatter \<Rightarrow> ExecEnv \<Rightarrow> OrderData \<Rightarrow> Balance \<Rightarrow> real \<Rightarrow> Engine \<Rightarrow>
     OrderExecutionResult \<times> Engine" where
  "executeOrder fmt env orderData userBalance currentPrice eng =
    (let validation = validateOrder fmt orderData userBalance currentPrice in
     if \<not> isValid validation
     then (\<lparr>success = False, orderId = None, executedPrice = None, executedQuantity = None,
            error = Some (joinWith '', '' (errors validation)), trade = None\<rparr>, eng)
     else
       (let (newId, eng0) = generateOrderId fmt (orderIdNow env) eng;
            order = \<lparr>order_id = newId,
                     order_symbol = the (od_symbol orderData),
                     order_side = the (od_side orderData),
                     order_type = the (od_type orderData),
                     order_quantity = the (od_quantity orderData),
                     order_price = Some (orElse (od_price orderData) currentPrice),
                     order_status = Pending,
                     order_timestamp = orderNow env,
                     order_leverage = Some (orElse (od_leverage orderData) 1),
                     order_stopLoss = od_stopLoss orderData,
                     order_takeProfit = od_takeProfit orderData,
                     order_timeInForce = Some (case od_timeInForce orderData of
                                                 None \<Rightarrow> GTC | Some t \<Rightarrow> t),
                     order_filledQuantity = None,
                     order_averagePrice = None,
                     order_filledAt = None,
                     order_cancelledAt = None,
                     order_rejectedReason = None\<rparr>;
            eng1 = eng0\<lparr>orders := mapSet (orders eng0) (order_id order) order\<rparr>;
            (executionResult, eng2) =
              (if order_type order = Market
               then executeMarketOrder fmt env order currentPrice eng1
               else executeLimitOrder fmt env order currentPrice eng1);
            order' =
              (if success executionResult
               then order\<lparr>order_status := Filled,
                          order_filledQuantity := executedQuantity executionResult,
                          order_averagePrice := executedPrice executionResult,
                          order_filledAt := Some (filledNow env)\<rparr>
               else order\<lparr>order_status := Rejected,
                          order_rejectedReason := error executionResult\<rparr>);
            eng3 = eng2\<lparr>orders := mapSet (orders eng2) (order_id order') order'\<rparr>
        in (executionResult\<lparr>orderId := Some (order_id order')\<rparr>, eng3)))"

subsection \<open>cancelOrder and closePosition\<close>

definition cancelOrder :: "nat \<Rightarrow> string \<Rightarrow> Engine \<Rightarrow> bool \<times> Engine" where
  "cancelOrder now oid eng =
    (case mapGet (orders eng) oid of
       None \<Rightarrow> (False, eng)
     | Some order \<Rightarrow>
         if order_status order \<noteq> Pending then (False, eng)
         else (True, eng\<lparr>orders := mapSet (orders eng) oid
                 (order\<lparr>order_status := Cancelled, order_cancelledAt := Some now\<rparr>)\<rparr>))"

definition closePosition ::
  "Formatter \<Rightarrow> ExecEnv \<Rightarrow> string \<Rightarrow> real \<Rightarrow> Engine \<Rightarrow> OrderExecutionResult \<times> Engine" where
  "closePosition fmt env positionId currentPrice eng =
    (case find (\<lambda>p. pos_id p = positionId) (map snd (positions eng)) of
       None \<Rightarrow> (\<lparr>success = False, orderId = None, executedPrice = None, executedQuantity = None,
                 error = Some ''Position not found'', trade = None\<rparr>, eng)
     | Some position \<Rightarrow>
         executeOrder fmt env
           \<lparr>od_symbol = Some (pos_symbol position),
            od_side = Some (if pos_side position = PBuy then Sell else Buy),
            od_type = Some Market,
            od_quantity = Some \<bar>pos_size position\<bar>,
            od_price = None,
            od_leverage = Some (pos_leverage position),
            od_stopLoss = None,
            od_takeProfit = None,
            od_timeInForce = None\<rparr>
           Infinity currentPrice eng)"

subsection \<open>Reachable engine states\<close>

text \<open>
  The engine starts empty; its state changes only through the three public mutators,
  called with any arguments and any clock and random readings.
\<close>

inductive reachable :: "Formatter \<Rightarrow> Engine \<Rightarrow> bool" for fmt :: Formatter where
  reachable_init: "reachable fmt initialEngine"
| reachable_executeOrder:
    "reachable fmt eng \<Longrightarrow> reachable fmt (snd (executeOrder fmt env orderData userBalance currentPrice eng))"
| reachable_cancelOrder:
    "reachable fmt eng \<Longrightarrow> reachable fmt (snd (cancelOrder now oid eng))"
| reachable_closePosition:
    "reachable fmt eng \<Longrightarrow> reachable fmt (snd (closePosition fmt env positionId currentPrice eng))"

section \<open>Risk manager (src/lib/risk-management.ts)\<close>

record RiskLimits =
  maxMarginUtilization :: real
  maxPositionSize :: real
  maxDailyLoss :: real
  maxConcurrentPositions :: real
  maxLeveragePerPosition :: real

definition defaultLimits :: RiskLimits where
  "defaultLimits =
     \<lparr>maxMarginUtilization = 0.8, maxPositionSize = 10000, maxDailyLoss = 1000,
      maxConcurrentPositions = 5, maxLeveragePerPosition = 20\<rparr>"

text \<open>
  \<open>calculateRiskScore\<close>. A limit \<open>maxConcurrentPositions = 0\<close> makes the quotient
  infinite or NaN in JavaScript; the score is stated for a non-zero limit.
\<close>

definition calculateRiskScore :: "RiskLimits \<Rightarrow> real \<Rightarrow> nat \<Rightarrow> real \<Rightarrow> real" where
  "calculateRiskScore limits marginUtilization positionCount pnlRatio =
    (let score0 = 0;
         score1 = score0 + marginUtilization * 40;
         score2 = score1 + min (real positionCount / maxConcurrentPositions limits) 1 * 30;
         score3 = (if pnlRatio < 0 then score2 + min (\<bar>pnlRatio\<bar> * 2) 1 * 30 else score2)
     in min score3 100)"

text \<open>The sums of \<open>calculateRiskMetrics\<close>, each a \<open>reduce\<close> from 0.\<close>

definition marginUsed :: "Position list \<Rightarrow> real" where
  "marginUsed ps = foldl (\<lambda>sum pos. sum + pos_margin pos) 0 ps"

definition totalUnrealizedPnl :: "Position list \<Rightarrow> real" where
  "totalUnrealizedPnl ps = foldl (\<lambda>sum pos. sum + pos_unrealizedPnl pos) 0 ps"

text \<open>
  The \<open>riskScore\<close> field of the result of \<open>calculateRiskMetrics\<close>; no other field
  of the result feeds into it.
\<close>

definition calculateRiskMetrics_riskScore :: "RiskLimits \<Rightarrow> Position list \<Rightarrow> real \<Rightarrow> real" where
  "calculateRiskMetrics_riskScore limits ps accountBalance =
    (let marginUtilization = marginUsed ps / accountBalance
     in calculateRiskScore limits marginUtilization (length ps)
          (totalUnrealizedPnl ps / accountBalance))"

section \<open>A concrete formatter and example inputs\<close>

text \<open>
  Decimal rendering, used to run the engine on examples: \<open>numberToString\<close> is the
  JavaScript rendering on integers below \<open>10^21\<close>, \<open>toFixed\<close> rounds half up.
\<close>

definition digitChars :: string where
  "digitChars = ''0123456789''"

fun showNat :: "nat \<Rightarrow> string" where
  "showNat n = (if n < 10 then [digitChars ! n] else showNat (n div 10) @ [digitChars ! (n mod 10)])"

declare showNat.simps [simp del]

definition decimalFormatter :: Formatter where
  "decimalFormatter =
     \<lparr>numberToString = (\<lambda>r. (if r < 0 then ''-'' else []) @ showNat (nat \<lfloor>\<bar>r\<bar>\<rfloor>)),
      toFixed = (\<lambda>r d.
        (let n = nat \<lfloor>\<bar>r\<bar> * 10 ^ d + 1 / 2\<rfloor>;
             frac = showNat (n mod 10 ^ d)
         in (if r < 0 then ''-'' else []) @ showNat (n div 10 ^ d) @
            (if d = 0 then [] else ''.'' @ replicate (d - length frac) (CHR ''0'') @ frac)))\<rparr>"

definition exampleEnv :: ExecEnv where
  "exampleEnv =
     \<lparr>orderIdNow = 1000, orderNow = 1000, slippageRandom = 1 / 2, tradeIdNow = 1001,
      tradeIdRandom = ''k3x9q2m4z'', tradeNow = 1001, positionIdNow = 1002, filledNow = 1003\<rparr>"

definition limitOrderData :: "side \<Rightarrow> real \<Rightarrow> real \<Rightarrow> OrderData" where
  "limitOrderData s q p =
     \<lparr>od_symbol = Some ''BTC'', od_side = Some s, od_type = Some Limit, od_quantity = Some q,
      od_price = Some p, od_leverage = None, od_stopLoss = None, od_takeProfit = None,
      od_timeInForce = None\<rparr>"

definition marketOrderData :: "side \<Rightarrow> real \<Rightarrow> OrderData" where
  "marketOrderData s q =
     \<lparr>od_symbol = Some ''BTC'', od_side = Some s, od_type = Some Market, od_quantity = Some q,
      od_price = None, od_leverage = None, od_stopLoss = None, od_takeProfit = None,
      od_timeInForce = None\<rparr>"

definition exampleTrade :: "side \<Rightarrow> real \<Rightarrow> real \<Rightarrow> Trade" where
  "exampleTrade s q p =
     \<lparr>trade_id = ''trade-1001-k3x9q2m4z'', trade_orderId = Some ''order-1000-1'',
      trade_symbol = ''BTC'', trade_side = s, trade_quantity = q, trade_price = p,
      trade_timestamp = 1001, trade_fee = calculateFee q p, trade_leverage = Some 2\<rparr>"

text \<open>An order table holding a pending and a filled order.\<close>

definition examplePendingOrder :: Order where
  "examplePendingOrder =
     \<lparr>order_id = ''order-1000-1'', order_symbol = ''BTC'', order_side = Buy, order_type = Limit,
      order_quantity = 10, order_price = Some 90, order_status = Pending, order_timestamp = 1000,
      order_leverage = Some 1, order_stopLoss = None, order_takeProfit = None,
      order_timeInForce = Some GTC, order_filledQuantity = None, order_averagePrice = None,
      order_filledAt = None, order_cancelledAt = None, order_rejectedReason = None\<rparr>"

definition exampleOrderTable :: Engine where
  "exampleOrderTable =
     \<lparr>orders = [(''order-1000-1'', examplePendingOrder),
                (''order-1000-2'', examplePendingOrder\<lparr>order_id := ''order-1000-2'',
                                                       order_status := Filled\<rparr>)],
      positions = [], trades = [], orderCounter = 2\<rparr>"

text \<open>
  A long of 10 units at 100 (leverage 2), then 10 more at 120, and the position record
  these trades leave under their key.
\<close>

definition exampleLong10 :: Engine where
  "exampleLong10 = updatePosition decimalFormatter 1002 (exampleTrade Buy 10 100) initialEngine"

definition exampleLong20 :: Engine where
  "exampleLong20 = updatePosition decimalFormatter 1002 (exampleTrade Buy 10 120) exampleLong10"

definition examplePosition :: "real \<Rightarrow> real \<Rightarrow> real \<Rightarrow> Position" where
  "examplePosition sz entry margin =
     \<lparr>pos_id = ''pos-'' @ numberToString decimalFormatter 1002, pos_symbol = ''BTC'',
      pos_side = PBuy, pos_size = sz, pos_entryPrice = entry, pos_markPrice = 100,
      pos_pnl = 0, pos_pnlPercent = 0, pos_unrealizedPnl = 0, pos_realizedPnl = 0,
      pos_margin = margin, pos_leverage = 2, pos_liquidationPrice = None,
      pos_timestamp = 1001, pos_stopLoss = None, pos_takeProfit = None\<rparr>"

text \<open>A market buy of 5 units that carries the price 0.\<close>

definition zeroPriceBuy :: OrderData where
  "zeroPriceBuy =
     \<lparr>od_symbol = Some ''BTC'', od_side = Some Buy, od_type = Some Market, od_quantity = Some 5,
      od_price = Some 0, od_leverage = None, od_stopLoss = None, od_takeProfit = None,
      od_timeInForce = None\<rparr>"

text \<open>
  A scenario on the empty engine: a limit buy of 10 at 100 fills, a limit sell of 20 at
  100 fills against it, then \<open>closePosition\<close> is called on the position.
\<close>

definition flipStep1 :: Engine where
  "flipStep1 = snd (executeOrder decimalFormatter exampleEnv (limitOrderData Buy 10 100)
                      (Finite 10000) 100 initialEngine)"

definition flipStep2 :: Engine where
  "flipStep2 = snd (executeOrder decimalFormatter exampleEnv (limitOrderData Sell 20 100)
                      (Finite 10000) 100 flipStep1)"

definition flipStep3 :: Engine where
  "flipStep3 = snd (closePosition decimalFormatter exampleEnv
                      (''pos-'' @ numberToString decimalFormatter (real (positionIdNow exampleEnv)))
                      100 flipStep2)"

text \<open>The key and the position record of the scenario.\<close>

definition flipKey :: string where
  "flipKey = ''BTC-'' @ numberToString decimalFormatter 1"

definition flipPosition :: "real \<Rightarrow> real \<Rightarrow> real \<Rightarrow> Position" where
  "flipPosition sz entry margin =
     \<lparr>pos_id = ''pos-'' @ numberToString decimalFormatter (real (positionIdNow exampleEnv)),
      pos_symbol = ''BTC'',
      pos_side = PBuy, pos_size = sz, pos_entryPrice = entry, pos_markPrice = 100,
      pos_pnl = 0, pos_pnlPercent = 0, pos_unrealizedPnl = 0, pos_realizedPnl = 0,
      pos_margin = margin, pos_leverage = 1, pos_liquidationPrice = None,
      pos_timestamp = 1001, pos_stopLoss = None, pos_takeProfit = None\<rparr>"

section \<open>Predicates used by the claims\<close>

text \<open>Every order in the table has left \<open>pending\<close> through execution.\<close>

definition allSettled :: "Engine \<Rightarrow> bool" where
  "allSettled eng =
     list_all (\<lambda>(k, ord). order_status ord = Filled \<or> order_status ord = Rejected) (orders eng)"

text \<open>An error message of the balance check starts with these words; no other message does.\<close>

definition isInsufficientBalanceError :: "string \<Rightarrow> bool" where
  "isInsufficientBalanceError e = (take 21 e = ''Insufficient balance.'')"

section \<open>Auxiliary facts\<close>

lemma mapGet_mapSet: "mapGet (mapSet m k v) k' = (if k' = k then Some v else mapGet m k')"
  by (induction m) (auto simp: mapGet_def)

lemma mapSet_mapSet: "mapSet (mapSet m k v) k v' = mapSet m k v'"
  by (induction m) auto

lemma set_mapSet: "set (mapSet m k v) \<subseteq> insert (k, v) (set m)"
  by (induction m) (auto split: if_splits)

lemma validateOrder_valid_fields:
  assumes "isValid (validateOrder fmt od bal cp)"
  shows "truthyStr (od_symbol od) \<and> od_side od \<noteq> None \<and> od_type od \<noteq> None \<and>
         (\<exists>q. od_quantity od = Some q \<and> 0 < q)"
  using assms
  by (auto simp: validateOrder_def Let_def truthyNum_def split: if_splits option.splits)

lemma validateOrder_limit_price:
  assumes "isValid (validateOrder fmt od bal cp)" and "od_type od = Some Limit"
  shows "\<exists>p. od_price od = Some p \<and> 0 < p"
  using assms
  by (auto simp: validateOrder_def Let_def truthyNum_def split: if_splits option.splits)

lemma updatePosition_frame:
  "orders (updatePosition fmt now t eng) = orders eng \<and>
   trades (updatePosition fmt now t eng) = trades eng \<and>
   orderCounter (updatePosition fmt now t eng) = orderCounter eng"
  by (simp add: updatePosition_def Let_def split: option.splits)

lemma executeMarketOrder_orders:
  "orders (snd (executeMarketOrder fmt env ord cp eng)) = orders eng"
  by (simp add: executeMarketOrder_def Let_def updatePosition_frame)

lemma executeMarketOrder_success:
  "success (fst (executeMarketOrder fmt env ord cp eng))"
  by (simp add: executeMarketOrder_def Let_def)

lemma executeLimitOrder_orders:
  "orders (snd (executeLimitOrder fmt env ord cp eng)) = orders eng"
  by (simp add: executeLimitOrder_def Let_def updatePosition_frame)

lemma executeLimitOrder_success:
  "success (fst (executeLimitOrder fmt env ord cp eng))"
  by (simp add: executeLimitOrder_def Let_def)

lemma allSettled_mapSet:
  assumes "list_all (\<lambda>(k, ord). order_status ord = Filled \<or> order_status ord = Rejected) m"
      and "order_status v = Filled"
  shows "list_all (\<lambda>(k, ord). order_status ord = Filled \<or> order_status ord = Rejected) (mapSet m k v)"
  using assms set_mapSet [of m k v] by (auto simp: list_all_iff)

lemma executeOrder_valid_orders:
  assumes "isValid (validateOrder fmt od bal cp)"
  shows "\<exists>oid ord. orders (snd (executeOrder fmt env od bal cp eng)) = mapSet (orders eng) oid ord \<and>
      order_status ord = Filled \<and>
      orderId (fst (executeOrder fmt env od bal cp eng)) = Some oid"
  using assms
  apply (simp add: executeOrder_def Let_def case_prod_beta generateOrderId_def
        executeMarketOrder_orders executeLimitOrder_orders
        executeMarketOrder_success executeLimitOrder_success mapSet_mapSet)
  apply (intro conjI impI)
   apply (rule exI, rule conjI, rule refl, simp)+
  done

lemma executeOrder_invalid_orders:
  assumes "\<not> isValid (validateOrder fmt od bal cp)"
  shows "snd (executeOrder fmt env od bal cp eng) = eng \<and>
         orderId (fst (executeOrder fmt env od bal cp eng)) = None"
  using assms by (simp add: executeOrder_def Let_def)

lemma allSettled_executeOrder:
  assumes "allSettled eng"
  shows "allSettled (snd (executeOrder fmt env od bal cp eng))"
proof (cases "isValid (validateOrder fmt od bal cp)")
  case True
  from executeOrder_valid_orders [OF True, of env eng]
  obtain oid ord where o: "orders (snd (executeOrder fmt env od bal cp eng)) = mapSet (orders eng) oid ord"
    and f: "order_status ord = Filled"
    by blast
  from allSettled_mapSet [OF _ f, of "orders eng" oid] assms o show ?thesis
    by (simp add: allSettled_def)
next
  case False
  with executeOrder_invalid_orders [OF False, of env eng] assms show ?thesis by simp
qed

lemma cancelOrder_allSettled:
  assumes "allSettled eng"
  shows "cancelOrder now oid eng = (False, eng)"
proof (cases "mapGet (orders eng) oid")
  case None
  then show ?thesis by (simp add: cancelOrder_def)
next
  case (Some ord)
  then have "(oid, ord) \<in> set (orders eng)"
    by (simp add: mapGet_def map_of_SomeD)
  with assms have "order_status ord \<noteq> Pending"
    by (auto simp: allSettled_def list_all_iff)
  with Some show ?thesis by (simp add: cancelOrder_def)
qed

lemma allSettled_closePosition:
  assumes "allSettled eng"
  shows "allSettled (snd (closePosition fmt env pid cp eng))"
  using assms by (simp add: closePosition_def allSettled_executeOrder split: option.splits)

lemma reachable_allSettled:
  assumes "reachable fmt eng"
  shows "allSettled eng"
  using assms
proof (induction rule: reachable.induct)
  case reachable_init
  show ?case by (simp add: allSettled_def initialEngine_def)
next
  case (reachable_executeOrder eng env orderData userBalance currentPrice)
  then show ?case by (simp add: allSettled_executeOrder)
next
  case (reachable_cancelOrder eng now oid)
  then show ?case by (simp add: cancelOrder_allSettled)
next
  case (reachable_closePosition eng env positionId currentPrice)
  then show ?case by (simp add: allSettled_closePosition)
qed

lemma exampleLong10_positions:
  "positions exampleLong10 =
     [(positionKey decimalFormatter (exampleTrade Buy 10 100), examplePosition 10 100 500)]"
  by (simp add: exampleLong10_def updatePosition_def initialEngine_def mapGet_def Let_def
        exampleTrade_def examplePosition_def positionSide_def signedQuantity_def orElse_def)

lemma exampleTrade_key:
  "positionKey decimalFormatter (exampleTrade s q p) = positionKey decimalFormatter (exampleTrade Buy 10 100)"
  by (simp add: positionKey_def exampleTrade_def)

lemma exampleLong20_positions:
  "positions exampleLong20 =
     [(positionKey decimalFormatter (exampleTrade Buy 10 100), examplePosition 20 110 1100)]"
  by (simp add: exampleLong20_def updatePosition_def exampleLong10_positions
        exampleTrade_key [of Buy 10 120] mapGet_def Let_def)
     (simp add: exampleTrade_def examplePosition_def signedQuantity_def orElse_def)

lemma valid_buy10: "isValid (validateOrder decimalFormatter (limitOrderData Buy 10 100) (Finite 10000) 100)"
  by (simp add: validateOrder_def limitOrderData_def truthyNum_def truthyStr_def Let_def
        exceedsBalance_def)

lemma valid_sell20: "isValid (validateOrder decimalFormatter (limitOrderData Sell 20 100) (Finite 10000) 100)"
  by (simp add: validateOrder_def limitOrderData_def truthyNum_def truthyStr_def Let_def)

lemma flipStep1_positions:
  "positions flipStep1 = [(flipKey, flipPosition 10 100 1000)]"
  using valid_buy10
  by (simp add: flipStep1_def executeOrder_def Let_def case_prod_beta generateOrderId_def
        executeLimitOrder_def updatePosition_def initialEngine_def mapGet_def positionKey_def
        flipKey_def flipPosition_def positionSide_def signedQuantity_def orElse_def
        limitOrderData_def exampleEnv_def)

lemma flipStep2_positions:
  "positions flipStep2 = [(flipKey, flipPosition (- 10) 100 1000)]"
  using valid_sell20
  by (simp add: flipStep2_def executeOrder_def Let_def case_prod_beta generateOrderId_def
        executeLimitOrder_def updatePosition_def flipStep1_positions mapGet_def positionKey_def
        positionSide_def signedQuantity_def orElse_def limitOrderData_def flipKey_def)
     (simp add: flipPosition_def)


lemma flipStep3_positions:
  "positions flipStep3 = [(flipKey, flipPosition (- 20) 99.975 1999.5)]"
proof -
  have f: "find (\<lambda>p. pos_id p = ''pos-'' @ numberToString decimalFormatter (real (positionIdNow exampleEnv)))
             (map snd (positions flipStep2)) = Some (flipPosition (- 10) 100 1000)"
    by (simp add: flipStep2_positions flipPosition_def)
  have v: "isValid (validateOrder decimalFormatter
             \<lparr>od_symbol = Some ''BTC'', od_side = Some Sell, od_type = Some Market,
              od_quantity = Some 10, od_price = None, od_leverage = Some 1, od_stopLoss = None,
              od_takeProfit = None, od_timeInForce = None\<rparr> Infinity 100)"
    by (simp add: validateOrder_def truthyNum_def truthyStr_def Let_def)
  show ?thesis
    using v
    by (simp add: flipStep3_def closePosition_def f flipPosition_def)
       (simp add: executeOrder_def Let_def case_prod_beta generateOrderId_def
          executeMarketOrder_def updatePosition_def flipStep2_positions mapGet_def positionKey_def
          positionSide_def signedQuantity_def orElse_def flipKey_def flipPosition_def
          exampleEnv_def)
qed

lemma flipStep2_reachable: "reachable decimalFormatter flipStep2"
  unfolding flipStep2_def flipStep1_def
  by (intro reachable_executeOrder reachable_init)

section \<open>The claims\<close>

text \<open>
  C1. A valid limit order that is not marketable (a buy with limit price strictly below
  \<open>currentPrice\<close>, a sell with limit price strictly above) makes \<open>executeOrder\<close>
  return \<open>success = true\<close> with \<open>executedQuantity = 0\<close>, no executed price and no
  trade; the trades list and the positions are unchanged, and the stored order ends with
  status \<open>filled\<close> and \<open>filledQuantity = 0\<close>.
\<close>

theorem limit_not_marketable:
  assumes valid: "isValid (validateOrder fmt od bal cp)"
      and lim: "od_type od = Some Limit"
      and price: "od_price od = Some p"
      and nm: "(od_side od = Some Buy \<and> p < cp) \<or> (od_side od = Some Sell \<and> cp < p)"
  shows "\<exists>res eng' oid ord.
           executeOrder fmt env od bal cp eng = (res, eng') \<and>
           success res \<and> executedQuantity res = Some 0 \<and> executedPrice res = None \<and>
           trade res = None \<and> error res = None \<and>
           trades eng' = trades eng \<and> positions eng' = positions eng \<and>
           orderId res = Some oid \<and> mapGet (orders eng') oid = Some ord \<and>
           order_status ord = Filled \<and> order_filledQuantity ord = Some 0"
proof -
  from validateOrder_limit_price [OF valid lim] price have ppos: "0 < p" by simp
  then have pr: "orElse (od_price od) cp = p"
    using price by (simp add: orElse_def)
  from nm pr lim valid show ?thesis
    by (auto simp: executeOrder_def executeLimitOrder_def generateOrderId_def Let_def
          mapGet_mapSet split: prod.splits)
qed

theorem limit_not_marketable_witness:
  "isValid (validateOrder decimalFormatter (limitOrderData Buy 10 90) (Finite 10000) 100) \<and>
   (\<exists>res eng' oid ord.
      executeOrder decimalFormatter exampleEnv (limitOrderData Buy 10 90) (Finite 10000) 100
        initialEngine = (res, eng') \<and>
      success res \<and> executedQuantity res = Some 0 \<and> trade res = None \<and>
      trades eng' = [] \<and> positions eng' = [] \<and>
      orderId res = Some oid \<and> mapGet (orders eng') oid = Some ord \<and>
      order_status ord = Filled \<and> order_filledQuantity ord = Some 0)"
proof -
  have v: "isValid (validateOrder decimalFormatter (limitOrderData Buy 10 90) (Finite 10000) 100)"
    by (simp add: validateOrder_def limitOrderData_def truthyNum_def truthyStr_def Let_def
          exceedsBalance_def)
  have t: "od_type (limitOrderData Buy 10 90) = Some Limit"
    and p: "od_price (limitOrderData Buy 10 90) = Some 90"
    and s: "(od_side (limitOrderData Buy 10 90) = Some Buy \<and> (90::real) < 100) \<or>
            (od_side (limitOrderData Buy 10 90) = Some Sell \<and> (100::real) < 90)"
    by (simp_all add: limitOrderData_def)
  from limit_not_marketable [OF v t p s, of exampleEnv initialEngine] v show ?thesis
    unfolding initialEngine_def by simp blast
qed

text \<open>
  C2. When a fill has the direction of the position stored under its key,
  \<open>updatePosition\<close> sets the entry price to the volume-weighted average
  \<open>(|oldSize| * oldEntry + addedQty * addedPrice) / (|oldSize| + addedQty)\<close>, adds the
  signed trade quantity to the size, and raises the margin by
  \<open>addedQty * addedPrice / leverage\<close> (the trade's leverage, 1 when it has none). A long
  of 10 at 100 followed by a buy of 10 at 120 has entry price 110 and size 20.
\<close>

theorem same_direction_fill:
  assumes "mapGet (positions eng) (positionKey fmt t) = Some p"
      and "sgn (pos_size p) = sgn (signedQuantity t)"
  shows "\<exists>p'. mapGet (positions (updatePosition fmt now t eng)) (positionKey fmt t) = Some p' \<and>
           pos_entryPrice p' =
             (\<bar>pos_size p\<bar> * pos_entryPrice p + trade_quantity t * trade_price t) /
             (\<bar>pos_size p\<bar> + trade_quantity t) \<and>
           pos_size p' = pos_size p + signedQuantity t \<and>
           pos_margin p' = pos_margin p +
             trade_quantity t * trade_price t / orElse (trade_leverage t) 1"
  using assms by (simp add: updatePosition_def Let_def mapGet_mapSet)

theorem same_direction_fill_witness:
  "mapGet (positions exampleLong10) (positionKey decimalFormatter (exampleTrade Buy 10 120)) =
     Some (examplePosition 10 100 500) \<and>
   sgn (pos_size (examplePosition 10 100 500)) = sgn (signedQuantity (exampleTrade Buy 10 120)) \<and>
   (\<exists>p'. mapGet (positions exampleLong20) (positionKey decimalFormatter (exampleTrade Buy 10 120)) =
            Some p' \<and>
          pos_entryPrice p' = 110 \<and> pos_size p' = 20 \<and> pos_margin p' = 1100)"
proof -
  have g: "mapGet (positions exampleLong10) (positionKey decimalFormatter (exampleTrade Buy 10 120)) =
             Some (examplePosition 10 100 500)"
    by (simp add: exampleLong10_positions exampleTrade_key [of Buy 10 120] mapGet_def)
  have d: "sgn (pos_size (examplePosition 10 100 500)) = sgn (signedQuantity (exampleTrade Buy 10 120))"
    by (simp add: examplePosition_def signedQuantity_def exampleTrade_def)
  from same_direction_fill [OF g d, of 1002] g d show ?thesis
    by (simp add: exampleLong20_def examplePosition_def signedQuantity_def exampleTrade_def
          orElse_def)
qed

text \<open>
  C3. When a fill goes against a non-empty position, \<open>updatePosition\<close> adds
  \<open>pnlPerUnit * closingQuantity * leverage\<close> to \<open>realizedPnl\<close>, with \<open>pnlPerUnit\<close> the
  entry price minus the fill price for a buy and the converse for a sell, and
  \<open>closingQuantity = min(|oldSize|, tradeQuantity)\<close>; the size becomes the signed sum, the
  entry price stays, and the margin becomes \<open>|newSize| * entryPrice / leverage\<close> when the
  magnitude shrinks (it stays otherwise). Selling 5 at 130 from a long of 20 entered at
  110 realizes \<open>(130 - 110) * 5 * leverage\<close>, leaves size 15 and entry price 110.
\<close>

theorem opposite_direction_fill:
  assumes "mapGet (positions eng) (positionKey fmt t) = Some p"
      and "pos_size p \<noteq> 0"
      and "sgn (pos_size p) \<noteq> sgn (signedQuantity t)"
  shows "\<exists>p'. mapGet (positions (updatePosition fmt now t eng)) (positionKey fmt t) = Some p' \<and>
           pos_realizedPnl p' = pos_realizedPnl p +
             (if trade_side t = Buy then pos_entryPrice p - trade_price t
              else trade_price t - pos_entryPrice p) *
             min \<bar>pos_size p\<bar> (trade_quantity t) * pos_leverage p \<and>
           pos_size p' = pos_size p + signedQuantity t \<and>
           pos_entryPrice p' = pos_entryPrice p \<and>
           (\<bar>pos_size p'\<bar> < \<bar>pos_size p\<bar> \<longrightarrow>
              pos_margin p' = \<bar>pos_size p'\<bar> * pos_entryPrice p / pos_leverage p) \<and>
           (\<not> \<bar>pos_size p'\<bar> < \<bar>pos_size p\<bar> \<longrightarrow> pos_margin p' = pos_margin p)"
  using assms by (simp add: updatePosition_def Let_def mapGet_mapSet)

theorem opposite_direction_fill_witness:
  "mapGet (positions exampleLong20) (positionKey decimalFormatter (exampleTrade Sell 5 130)) =
     Some (examplePosition 20 110 1100) \<and>
   pos_size (examplePosition 20 110 1100) \<noteq> 0 \<and>
   sgn (pos_size (examplePosition 20 110 1100)) \<noteq> sgn (signedQuantity (exampleTrade Sell 5 130)) \<and>
   (\<exists>p'. mapGet (positions (updatePosition decimalFormatter 1002 (exampleTrade Sell 5 130)
                               exampleLong20))
            (positionKey decimalFormatter (exampleTrade Sell 5 130)) = Some p' \<and>
          pos_realizedPnl p' = (130 - 110) * 5 * pos_leverage (examplePosition 20 110 1100) \<and>
          pos_size p' = 15 \<and> pos_entryPrice p' = 110 \<and> pos_margin p' = 825)"
proof -
  have g: "mapGet (positions exampleLong20) (positionKey decimalFormatter (exampleTrade Sell 5 130)) =
             Some (examplePosition 20 110 1100)"
    by (simp add: exampleLong20_positions exampleTrade_key [of Sell 5 130] mapGet_def)
  have n: "pos_size (examplePosition 20 110 1100) \<noteq> 0"
    by (simp add: examplePosition_def)
  have d: "sgn (pos_size (examplePosition 20 110 1100)) \<noteq> sgn (signedQuantity (exampleTrade Sell 5 130))"
    by (simp add: examplePosition_def signedQuantity_def exampleTrade_def)
  from opposite_direction_fill [OF g n d, of 1002] g n d show ?thesis
    by (auto simp: examplePosition_def signedQuantity_def exampleTrade_def)
qed

text \<open>
  C4. The claim is that in every reachable state a position's \<open>side\<close> is \<open>buy\<close>
  when its size is positive and \<open>sell\<close> when it is negative. \<open>updatePosition\<close> sets
  \<open>side\<close> only when it creates the position: after a long of 10 is crossed by a sell
  of 20 the size is -10 and the side still \<open>buy\<close>, and \<open>closePosition\<close>, which takes
  the closing direction from \<open>side\<close>, then sells 10 more and leaves the size at -20.
\<close>

theorem position_side_stale:
  "reachable decimalFormatter flipStep2 \<and>
   map (\<lambda>(k, p). (pos_side p, pos_size p)) (positions flipStep2) = [(PBuy, - 10)] \<and>
   map (\<lambda>(k, p). (pos_side p, pos_size p)) (positions flipStep3) = [(PBuy, - 20)]"
  by (simp add: flipStep2_reachable flipStep2_positions flipStep3_positions flipPosition_def)

text \<open>
  C5, as stated, fails when the price is 0: the balance check tests the price for
  truthiness, so a buy of 5 units at price 0 against a balance of -1 (notional 0, above
  the balance) is valid and carries no error at all.
\<close>

theorem zero_price_buy_counterexample:
  "od_side zeroPriceBuy = Some Buy \<and> od_quantity zeroPriceBuy = Some 5 \<and> (0::real) < 5 \<and>
   od_price zeroPriceBuy = Some 0 \<and> exceedsBalance (5 * 0) (Finite (- 1)) \<and>
   isValid (validateOrder decimalFormatter zeroPriceBuy (Finite (- 1)) 100) \<and>
   errors (validateOrder decimalFormatter zeroPriceBuy (Finite (- 1)) 100) = []"
  by (simp add: zeroPriceBuy_def validateOrder_def exceedsBalance_def truthyNum_def truthyStr_def
        Let_def)

text \<open>
  C5, amended. For every order with side \<open>buy\<close>, positive quantity and a present,
  non-zero price with \<open>quantity * price > userBalance\<close>, \<open>validateOrder\<close> returns
  \<open>isValid = false\<close> and the insufficient-balance error is among the errors; the same
  order with side \<open>sell\<close> has no insufficient-balance error.
\<close>

theorem buy_balance_gate:
  assumes "od_side od = Some Buy"
      and "od_quantity od = Some q" and "0 < q"
      and "od_price od = Some p" and "p \<noteq> 0"
      and "exceedsBalance (q * p) bal"
  shows "\<not> isValid (validateOrder fmt od bal cp) \<and>
         insufficientBalanceError fmt (q * p) bal \<in> set (errors (validateOrder fmt od bal cp)) \<and>
         isInsufficientBalanceError (insufficientBalanceError fmt (q * p) bal) \<and>
         (\<forall>e\<in>set (errors (validateOrder fmt (od\<lparr>od_side := Some Sell\<rparr>) bal cp)).
            \<not> isInsufficientBalanceError e)"
proof -
  have 1: "insufficientBalanceError fmt (q * p) bal \<in> set (errors (validateOrder fmt od bal cp))"
    using assms by (simp add: validateOrder_def Let_def truthyNum_def)
  then have 2: "\<not> isValid (validateOrder fmt od bal cp)"
    by (auto simp: validateOrder_def Let_def)
  have 3: "isInsufficientBalanceError (insufficientBalanceError fmt (q * p) bal)"
    by (simp add: isInsufficientBalanceError_def insufficientBalanceError_def)
  have 4: "\<forall>e\<in>set (errors (validateOrder fmt (od\<lparr>od_side := Some Sell\<rparr>) bal cp)).
            \<not> isInsufficientBalanceError e"
    by (auto simp: validateOrder_def Let_def isInsufficientBalanceError_def split: if_splits)
  from 1 2 3 4 show ?thesis by blast
qed

theorem buy_balance_gate_witness:
  "od_side (limitOrderData Buy 10 2000) = Some Buy \<and>
   od_quantity (limitOrderData Buy 10 2000) = Some 10 \<and>
   od_price (limitOrderData Buy 10 2000) = Some 2000 \<and>
   exceedsBalance (10 * 2000) (Finite 10000) \<and>
   \<not> isValid (validateOrder decimalFormatter (limitOrderData Buy 10 2000) (Finite 10000) 2000) \<and>
   errors (validateOrder decimalFormatter (limitOrderData Buy 10 2000) (Finite 10000) 2000) =
     [insufficientBalanceError decimalFormatter 20000 (Finite 10000)] \<and>
   errors (validateOrder decimalFormatter (limitOrderData Sell 10 2000) (Finite 10000) 2000) = []"
proof -
  have h: "od_side (limitOrderData Buy 10 2000) = Some Buy"
          "od_quantity (limitOrderData Buy 10 2000) = Some 10" "(0::real) < 10"
          "od_price (limitOrderData Buy 10 2000) = Some 2000" "(2000::real) \<noteq> 0"
          "exceedsBalance (10 * 2000) (Finite 10000)"
    by (simp_all add: limitOrderData_def exceedsBalance_def)
  have e: "errors (validateOrder decimalFormatter (limitOrderData Buy 10 2000) (Finite 10000) 2000) =
             [insufficientBalanceError decimalFormatter 20000 (Finite 10000)]"
    by (simp add: validateOrder_def limitOrderData_def truthyNum_def truthyStr_def Let_def
          exceedsBalance_def)
  have s: "errors (validateOrder decimalFormatter (limitOrderData Sell 10 2000) (Finite 10000) 2000) = []"
    by (simp add: validateOrder_def limitOrderData_def truthyNum_def truthyStr_def Let_def)
  from buy_balance_gate [OF h, of decimalFormatter 2000] h e s show ?thesis
    by simp
qed

text \<open>
  C6. \<open>cancelOrder(orderId)\<close> returns true exactly when an order with that id exists
  and its status is \<open>pending\<close>; it then sets the status to \<open>cancelled\<close> and stamps
  \<open>cancelledAt\<close>, leaving positions and trades alone. In every other case it returns
  false and the whole engine state is unchanged.
\<close>

theorem cancelOrder_iff_pending:
  "(fst (cancelOrder now oid eng) \<longleftrightarrow>
      (\<exists>ord. mapGet (orders eng) oid = Some ord \<and> order_status ord = Pending)) \<and>
   (fst (cancelOrder now oid eng) \<longrightarrow>
      (\<exists>ord. mapGet (orders eng) oid = Some ord \<and>
         mapGet (orders (snd (cancelOrder now oid eng))) oid =
           Some (ord\<lparr>order_status := Cancelled, order_cancelledAt := Some now\<rparr>)) \<and>
      positions (snd (cancelOrder now oid eng)) = positions eng \<and>
      trades (snd (cancelOrder now oid eng)) = trades eng) \<and>
   (\<not> fst (cancelOrder now oid eng) \<longrightarrow> snd (cancelOrder now oid eng) = eng)"
  by (auto simp: cancelOrder_def mapGet_mapSet split: option.splits)

theorem cancelOrder_iff_pending_witness:
  "fst (cancelOrder 2000 ''order-1000-1'' exampleOrderTable) \<and>
   mapGet (orders (snd (cancelOrder 2000 ''order-1000-1'' exampleOrderTable))) ''order-1000-1'' =
     Some (examplePendingOrder\<lparr>order_status := Cancelled, order_cancelledAt := Some 2000\<rparr>) \<and>
   \<not> fst (cancelOrder 2000 ''order-1000-2'' exampleOrderTable) \<and>
   snd (cancelOrder 2000 ''order-1000-2'' exampleOrderTable) = exampleOrderTable \<and>
   \<not> fst (cancelOrder 2000 ''order-1000-3'' exampleOrderTable) \<and>
   snd (cancelOrder 2000 ''order-1000-3'' exampleOrderTable) = exampleOrderTable"
proof -
  have g1: "mapGet (orders exampleOrderTable) ''order-1000-1'' = Some examplePendingOrder"
    by (simp add: exampleOrderTable_def mapGet_def)
  have g2: "mapGet (orders exampleOrderTable) ''order-1000-2'' =
              Some (examplePendingOrder\<lparr>order_id := ''order-1000-2'', order_status := Filled\<rparr>)"
    by (simp add: exampleOrderTable_def mapGet_def)
  have g3: "mapGet (orders exampleOrderTable) ''order-1000-3'' = None"
    by (simp add: exampleOrderTable_def mapGet_def)
  have p: "order_status examplePendingOrder = Pending"
    by (simp add: examplePendingOrder_def)
  from cancelOrder_iff_pending [of 2000 "''order-1000-1''" exampleOrderTable]
       cancelOrder_iff_pending [of 2000 "''order-1000-2''" exampleOrderTable]
       cancelOrder_iff_pending [of 2000 "''order-1000-3''" exampleOrderTable]
       g1 g2 g3 p
  show ?thesis by simp
qed

text \<open>
  C7. Whenever \<open>validateOrder\<close> reports \<open>isValid = false\<close> for the supplied order
  data, balance and price, \<open>executeOrder\<close> returns \<open>{success: false, error}\<close> with
  the validation errors joined by \<open>', '\<close>, and the engine (orders, positions, trades, and
  the order counter) is exactly as before the call: no order is stored.
\<close>

theorem executeOrder_invalid:
  assumes "\<not> isValid (validateOrder fmt od bal cp)"
  shows "executeOrder fmt env od bal cp eng =
           (\<lparr>success = False, orderId = None, executedPrice = None, executedQuantity = None,
             error = Some (joinWith '', '' (errors (validateOrder fmt od bal cp))),
             trade = None\<rparr>, eng)"
  using assms by (simp add: executeOrder_def Let_def)

theorem executeOrder_invalid_witness:
  "\<not> isValid (validateOrder decimalFormatter (limitOrderData Buy 0 0) (Finite 10000) 100) \<and>
   executeOrder decimalFormatter exampleEnv (limitOrderData Buy 0 0) (Finite 10000) 100 initialEngine =
     (\<lparr>success = False, orderId = None, executedPrice = None, executedQuantity = None,
       error = Some ''Quantity must be greater than 0, Price is required for limit orders'',
       trade = None\<rparr>, initialEngine)"
proof -
  have v: "validateOrder decimalFormatter (limitOrderData Buy 0 0) (Finite 10000) 100 =
             \<lparr>isValid = False,
              errors = [''Quantity must be greater than 0'', ''Price is required for limit orders''],
              warnings = []\<rparr>"
    by (simp add: validateOrder_def limitOrderData_def truthyNum_def truthyStr_def Let_def)
  then have "\<not> isValid (validateOrder decimalFormatter (limitOrderData Buy 0 0) (Finite 10000) 100)"
    by simp
  from executeOrder_invalid [OF this, of exampleEnv initialEngine] v show ?thesis
    by simp
qed

text \<open>
  C8. A valid market order at reference price \<open>p > 0\<close>, with the random draw in
  \<open>[0, 1)\<close> and slippage \<open>s\<close> a thousandth of it, executes at \<open>p * (1 + s)\<close> for
  a buy and \<open>p * (1 - s)\<close> for a sell, hence within \<open>[p, 1.001 p]\<close> and
  \<open>[0.999 p, p]\<close>: for \<open>p = 100\<close> in \<open>[100, 100.1]\<close> and \<open>[99.9, 100]\<close>.
\<close>

theorem market_slippage:
  assumes valid: "isValid (validateOrder fmt od bal cp)"
      and mkt: "od_type od = Some Market"
      and pos: "0 < cp"
      and rnd: "0 \<le> slippageRandom env" "slippageRandom env < 1"
  shows "\<exists>px. executedPrice (fst (executeOrder fmt env od bal cp eng)) = Some px \<and>
           (od_side od = Some Buy \<longrightarrow>
              px = cp * (1 + slippageRandom env * 0.001) \<and> cp \<le> px \<and> px \<le> cp * 1.001) \<and>
           (od_side od = Some Sell \<longrightarrow>
              px = cp * (1 - slippageRandom env * 0.001) \<and> cp * 0.999 \<le> px \<and> px \<le> cp) \<and>
           (cp = 100 \<longrightarrow> od_side od = Some Buy \<longrightarrow> 100 \<le> px \<and> px \<le> 100.1) \<and>
           (cp = 100 \<longrightarrow> od_side od = Some Sell \<longrightarrow> 99.9 \<le> px \<and> px \<le> 100)"
proof -
  let ?s = "slippageRandom env * 0.001"
  have s0: "0 \<le> ?s" and s1: "?s \<le> 0.001" using rnd by simp_all
  have cp0: "0 \<le> cp" using pos by simp
  have up1: "cp * 1 \<le> cp * (1 + ?s)"
    by (rule mult_left_mono) (use s0 cp0 in simp_all)
  have up2: "cp * (1 + ?s) \<le> cp * 1.001"
    by (rule mult_left_mono) (use s1 cp0 in simp_all)
  have dn1: "cp * 0.999 \<le> cp * (1 - ?s)"
    by (rule mult_left_mono) (use s1 cp0 in simp_all)
  have dn2: "cp * (1 - ?s) \<le> cp * 1"
    by (rule mult_left_mono) (use s0 cp0 in simp_all)
  have ex: "executedPrice (fst (executeOrder fmt env od bal cp eng)) =
              Some (cp * (1 + ?s * (if od_side od = Some Buy then 1 else - 1)))"
    using valid mkt validateOrder_valid_fields [OF valid]
    by (auto simp: executeOrder_def executeMarketOrder_def generateOrderId_def Let_def
          split: prod.splits)
  show ?thesis
    using ex up1 up2 dn1 dn2 by auto
qed

theorem market_slippage_witness:
  "isValid (validateOrder decimalFormatter (marketOrderData Buy 10) (Finite 10000) 100) \<and>
   isValid (validateOrder decimalFormatter (marketOrderData Sell 10) (Finite 10000) 100) \<and>
   executedPrice (fst (executeOrder decimalFormatter exampleEnv (marketOrderData Buy 10)
                         (Finite 10000) 100 initialEngine)) = Some 100.05 \<and>
   executedPrice (fst (executeOrder decimalFormatter exampleEnv (marketOrderData Sell 10)
                         (Finite 10000) 100 initialEngine)) = Some 99.95"
proof -
  have vb: "isValid (validateOrder decimalFormatter (marketOrderData Buy 10) (Finite 10000) 100)"
    by (simp add: validateOrder_def marketOrderData_def truthyNum_def truthyStr_def Let_def)
  have vs: "isValid (validateOrder decimalFormatter (marketOrderData Sell 10) (Finite 10000) 100)"
    by (simp add: validateOrder_def marketOrderData_def truthyNum_def truthyStr_def Let_def)
  have t: "od_type (marketOrderData Buy 10) = Some Market"
          "od_type (marketOrderData Sell 10) = Some Market"
          "od_side (marketOrderData Buy 10) = Some Buy"
          "od_side (marketOrderData Sell 10) = Some Sell"
    by (simp_all add: marketOrderData_def)
  have r: "0 \<le> slippageRandom exampleEnv" "slippageRandom exampleEnv < 1"
          "slippageRandom exampleEnv = 1 / 2"
    by (simp_all add: exampleEnv_def)
  have c: "(0::real) < 100" by simp
  from market_slippage [OF vb t(1) c r(1) r(2), of initialEngine]
       market_slippage [OF vs t(2) c r(1) r(2), of initialEngine] vb vs t r(3)
  show ?thesis by auto
qed

text \<open>
  C9. The risk score is monotone in margin utilization: with the position count and the
  P&L ratio fixed, \<open>u1 \<le> u2\<close> gives a score for \<open>u1\<close> that is at most the score for
  \<open>u2\<close>. For \<open>calculateRiskMetrics\<close>: with a positive balance, the same number of
  positions and the same total unrealized P&L, more margin in use means a utilization and
  a risk score that are not smaller. The configured position limit is taken non-zero,
  where the quotient by it is a number.
\<close>

theorem riskScore_monotone:
  assumes "maxConcurrentPositions limits \<noteq> 0"
  shows
  "(u1 \<le> u2 \<longrightarrow> calculateRiskScore limits u1 n r \<le> calculateRiskScore limits u2 n r) \<and>
   (0 < b \<and> length ps1 = length ps2 \<and> totalUnrealizedPnl ps1 = totalUnrealizedPnl ps2 \<and>
    marginUsed ps1 \<le> marginUsed ps2 \<longrightarrow>
    marginUsed ps1 / b \<le> marginUsed ps2 / b \<and>
    calculateRiskMetrics_riskScore limits ps1 b \<le> calculateRiskMetrics_riskScore limits ps2 b)"
proof -
  have mono: "calculateRiskScore limits x k q \<le> calculateRiskScore limits y k q"
    if "x \<le> y" for x y k q
    using that by (simp add: calculateRiskScore_def Let_def min_def)
  have "marginUsed ps1 / b \<le> marginUsed ps2 / b" if "0 < b" "marginUsed ps1 \<le> marginUsed ps2"
    using that by (simp add: divide_right_mono)
  with mono show ?thesis
    by (auto simp: calculateRiskMetrics_riskScore_def Let_def)
qed

theorem riskScore_monotone_witness:
  "maxConcurrentPositions defaultLimits \<noteq> 0 \<and> (0.2::real) \<le> 0.5 \<and>
   calculateRiskScore defaultLimits 0.2 2 (- 0.1) = 26 \<and>
   calculateRiskScore defaultLimits 0.5 2 (- 0.1) = 38 \<and>
   calculateRiskScore defaultLimits 0.2 2 (- 0.1) \<le> calculateRiskScore defaultLimits 0.5 2 (- 0.1) \<and>
   calculateRiskMetrics_riskScore defaultLimits [examplePosition 10 100 500] 10000 \<le>
   calculateRiskMetrics_riskScore defaultLimits [examplePosition 20 110 1100] 10000"
proof -
  have a: "calculateRiskScore defaultLimits 0.2 2 (- 0.1) = 26"
    by (simp add: calculateRiskScore_def defaultLimits_def Let_def)
  have b: "calculateRiskScore defaultLimits 0.5 2 (- 0.1) = 38"
    by (simp add: calculateRiskScore_def defaultLimits_def Let_def)
  have m: "marginUsed [examplePosition 10 100 500] = 500"
          "marginUsed [examplePosition 20 110 1100] = 1100"
          "totalUnrealizedPnl [examplePosition 10 100 500] = 0"
          "totalUnrealizedPnl [examplePosition 20 110 1100] = 0"
    by (simp_all add: marginUsed_def totalUnrealizedPnl_def examplePosition_def)
  have l: "maxConcurrentPositions defaultLimits \<noteq> 0"
    by (simp add: defaultLimits_def)
  from riskScore_monotone [OF l, where ?u1.0 = "0.2" and ?u2.0 = "0.5" and n = 2 and r = "- 0.1"
         and b = 10000 and ?ps1.0 = "[examplePosition 10 100 500]"
         and ?ps2.0 = "[examplePosition 20 110 1100]"] a b m l
  show ?thesis by simp
qed

text \<open>
  C10. After an \<open>executeOrder\<close> call the order it stored has status \<open>filled\<close> or
  \<open>rejected\<close>; in every engine state reachable from the empty engine no order of the table
  is \<open>pending\<close> (each is \<open>filled\<close> or \<open>rejected\<close>), so \<open>cancelOrder\<close> on the
  id of an engine-created order, and on any other id, returns false.
\<close>

theorem no_pending_after_executeOrder:
  assumes "reachable fmt eng"
  shows "(\<forall>(k, ord)\<in>set (orders eng). order_status ord = Filled \<or> order_status ord = Rejected) \<and>
         \<not> fst (cancelOrder now' oid' eng) \<and>
         (orderId (fst (executeOrder fmt env od bal cp eng)) = Some oid \<longrightarrow>
            (\<exists>ord. mapGet (orders (snd (executeOrder fmt env od bal cp eng))) oid = Some ord \<and>
               (order_status ord = Filled \<or> order_status ord = Rejected)) \<and>
            \<not> fst (cancelOrder now oid (snd (executeOrder fmt env od bal cp eng))))"
proof -
  have np: "allSettled eng" by (rule reachable_allSettled [OF assms])
  then have a: "\<forall>(k, ord)\<in>set (orders eng). order_status ord = Filled \<or> order_status ord = Rejected"
    by (simp add: allSettled_def list_all_iff)
  have b: "\<not> fst (cancelOrder now' oid' eng)"
    by (simp add: cancelOrder_allSettled [OF np])
  have c: "\<exists>ord. mapGet (orders (snd (executeOrder fmt env od bal cp eng))) oid = Some ord \<and>
               (order_status ord = Filled \<or> order_status ord = Rejected)"
    if "orderId (fst (executeOrder fmt env od bal cp eng)) = Some oid"
  proof (cases "isValid (validateOrder fmt od bal cp)")
    case True
    from executeOrder_valid_orders [OF True, of env eng] that show ?thesis
      by (auto simp: mapGet_mapSet)
  next
    case False
    from executeOrder_invalid_orders [OF False, of env eng] that show ?thesis by simp
  qed
  have d: "\<not> fst (cancelOrder now oid (snd (executeOrder fmt env od bal cp eng)))"
    by (simp add: cancelOrder_allSettled [OF allSettled_executeOrder [OF np]])
  from a b c d show ?thesis by blast
qed

theorem no_pending_after_executeOrder_witness:
  "reachable decimalFormatter initialEngine \<and>
   (\<exists>oid. orderId (fst (executeOrder decimalFormatter exampleEnv (limitOrderData Buy 10 90)
                          (Finite 10000) 100 initialEngine)) = Some oid \<and>
      (\<exists>ord. mapGet (orders (snd (executeOrder decimalFormatter exampleEnv (limitOrderData Buy 10 90)
                          (Finite 10000) 100 initialEngine))) oid = Some ord \<and>
         (order_status ord = Filled \<or> order_status ord = Rejected)) \<and>
      \<not> fst (cancelOrder 2000 oid (snd (executeOrder decimalFormatter exampleEnv
                          (limitOrderData Buy 10 90) (Finite 10000) 100 initialEngine))))"
proof -
  have v: "isValid (validateOrder decimalFormatter (limitOrderData Buy 10 90) (Finite 10000) 100)"
    by (simp add: validateOrder_def limitOrderData_def truthyNum_def truthyStr_def Let_def
          exceedsBalance_def)
  from executeOrder_valid_orders [OF v, of exampleEnv initialEngine]
  obtain oid where o: "orderId (fst (executeOrder decimalFormatter exampleEnv (limitOrderData Buy 10 90)
                          (Finite 10000) 100 initialEngine)) = Some oid"
    by blast
  from no_pending_after_executeOrder [where fmt = decimalFormatter and eng = initialEngine
         and env = exampleEnv and od = "limitOrderData Buy 10 90" and bal = "Finite 10000"
         and cp = 100 and oid = oid and now = 2000, OF reachable_init]
       o reachable_init [of decimalFormatter]
  show ?thesis by blast
qed

end
